theory Spec2Isabelle
  imports Complex_Main "HOL-Library.Sublist" "HOL-Library.Multiset"
begin

section \<open>JSON documents as Python sees them\<close>

text \<open>
  \<^verbatim>\<open>json.loads\<close> yields \<^verbatim>\<open>None\<close>, \<^verbatim>\<open>bool\<close>, \<^verbatim>\<open>int\<close>, \<^verbatim>\<open>float\<close>,
  \<^verbatim>\<open>str\<close>, \<^verbatim>\<open>list\<close> and \<^verbatim>\<open>dict\<close>. A finite float carries the exact
  rational value of the double (Python compares a float with an int exactly); the three
  non-finite floats that \<^verbatim>\<open>json.loads\<close> accepts are a constructor of their own.
  A dict is an association list in insertion order; Python dicts have distinct keys, and
  every theorem below holds for all association lists, hence for those.
\<close>

datatype nonfinite = NaN | PosInf | NegInf

datatype json =
    JNull
  | JBool bool
  | JInt int
  | JFloat rat
  | JNonFinite nonfinite
  | JStr string
  | JArr "json list"
  | JObj "(string \<times> json) list"

type_synonym dict = "(string \<times> json) list"

text \<open>\<^verbatim>\<open>type(v).__name__\<close>, as it appears in the text of Python's own exceptions.\<close>

fun type_name :: "json \<Rightarrow> string" where
  "type_name JNull = ''NoneType''"
| "type_name (JBool _) = ''bool''"
| "type_name (JInt _) = ''int''"
| "type_name (JFloat _) = ''float''"
| "type_name (JNonFinite _) = ''float''"
| "type_name (JStr _) = ''str''"
| "type_name (JArr _) = ''list''"
| "type_name (JObj _) = ''dict''"

text \<open>
  \<^verbatim>\<open>p.get(k)\<close>: the value, or \<^verbatim>\<open>None\<close> when the key is absent (here \<open>None\<close> of
  the option type; a stored JSON null is \<open>Some JNull\<close>, and every comparison below
  treats the two alike, as Python does).
\<close>

definition dict_get :: "dict \<Rightarrow> string \<Rightarrow> json option" where
  "dict_get p k = map_of p k"

text \<open>
  \<^verbatim>\<open>p[k] = v\<close>: an existing key keeps its position and takes the new value, a new key is
  appended.
\<close>

fun dict_set :: "dict \<Rightarrow> string \<Rightarrow> json \<Rightarrow> dict" where
  "dict_set [] k v = [(k, v)]"
| "dict_set ((k', v') # p) k v = (if k' = k then (k, v) # p else (k', v') # dict_set p k v)"

text \<open>
  \<^verbatim>\<open>x == n\<close> for an int \<open>n\<close>: Python's numeric equality, under which
  \<^verbatim>\<open>True == 1\<close>, \<^verbatim>\<open>False == 0\<close> and \<^verbatim>\<open>1.0 == 1\<close> hold; \<^verbatim>\<open>None\<close>, strings,
  lists, dicts and non-finite floats equal no int.
\<close>

fun py_eq_int :: "json option \<Rightarrow> int \<Rightarrow> bool" where
  "py_eq_int (Some (JInt m)) n = (m = n)"
| "py_eq_int (Some (JBool b)) n = ((if b then 1 else 0) = n)"
| "py_eq_int (Some (JFloat r)) n = (r = of_int n)"
| "py_eq_int _ n = False"

text \<open>\<^verbatim>\<open>x == s\<close> for a str \<open>s\<close>: only the same string is equal.\<close>

fun py_eq_str :: "json option \<Rightarrow> string \<Rightarrow> bool" where
  "py_eq_str (Some (JStr t)) s = (t = s)"
| "py_eq_str _ s = False"

text \<open>Truth value of an \<^verbatim>\<open>Optional[str]\<close>: \<^verbatim>\<open>None\<close> and the empty string are false.\<close>

fun truthy :: "string option \<Rightarrow> bool" where
  "truthy None = False"
| "truthy (Some s) = (s \<noteq> [])"

section \<open>The configuration mutator: \<^verbatim>\<open>update_pools_list\<close>\<close>

datatype error =
    AttributeError string
  | TypeError string

text \<open>
  The two assignments of the loop body:
  \<^verbatim>\<open>if p.get("disabled") != flag: p["disabled"] = flag\<close>.
\<close>

definition set_disabled :: "dict \<Rightarrow> int \<Rightarrow> dict" where
  "set_disabled p flag =
     (if \<not> py_eq_int (dict_get p ''disabled'') flag then dict_set p ''disabled'' (JInt flag)
      else p)"

text \<open>
  \<^verbatim>\<open>url and p.get("url") == url\<close>: \<^verbatim>\<open>and\<close> short-circuits, so \<^verbatim>\<open>p.get\<close> is called
  only for a true \<open>url\<close>, and raises AttributeError when \<open>p\<close> is not a dict.
\<close>

fun url_test :: "string option \<Rightarrow> json \<Rightarrow> error + bool" where
  "url_test None p = Inr False"
| "url_test (Some u) p =
     (if u = [] then Inr False
      else (case p of
              JObj kv \<Rightarrow> Inr (py_eq_str (dict_get kv ''url'') u)
            | _ \<Rightarrow> Inl (AttributeError (type_name p))))"

text \<open>
  One pass of the loop body on entry \<open>p\<close>:
  \<^verbatim>\<open>
  if disable_url and p.get("url") == disable_url:
      if p.get("disabled") != 1: p["disabled"] = 1
  elif enable_url and p.get("url") == enable_url:
      if p.get("disabled") != 0: p["disabled"] = 0
  \<close>
  A branch is entered only after a successful \<^verbatim>\<open>p.get\<close>, so \<open>p\<close> is a dict there.
\<close>

definition update_entry :: "string option \<Rightarrow> string option \<Rightarrow> json \<Rightarrow> error + json" where
  "update_entry disable_url enable_url p =
     (case url_test disable_url p of
        Inl err \<Rightarrow> Inl err
      | Inr True \<Rightarrow> (case p of JObj kv \<Rightarrow> Inr (JObj (set_disabled kv 1)) | _ \<Rightarrow> Inr p)
      | Inr False \<Rightarrow>
          (case url_test enable_url p of
             Inl err \<Rightarrow> Inl err
           | Inr True \<Rightarrow> (case p of JObj kv \<Rightarrow> Inr (JObj (set_disabled kv 0)) | _ \<Rightarrow> Inr p)
           | Inr False \<Rightarrow> Inr p))"

text \<open>
  \<^verbatim>\<open>for p in existing_pools: ...\<close> over the elements in order; the first exception ends
  the loop. The entries are updated in place in Python; the model returns the updated
  elements. (When the loop raises, the entries before the offending one stay updated in the
  caller's list; the only caller drops the document on an exception.)
\<close>

fun update_loop :: "string option \<Rightarrow> string option \<Rightarrow> json list \<Rightarrow> error + json list" where
  "update_loop disable_url enable_url [] = Inr []"
| "update_loop disable_url enable_url (p # ps) =
     (case update_entry disable_url enable_url p of
        Inl err \<Rightarrow> Inl err
      | Inr p' \<Rightarrow>
          (case update_loop disable_url enable_url ps of
             Inl err \<Rightarrow> Inl err
           | Inr ps' \<Rightarrow> Inr (p' # ps')))"

text \<open>
  What \<^verbatim>\<open>for p in x\<close> iterates over: the elements of a list, the keys of a dict, the
  characters of a str (each a str of length one); anything else is not iterable.
\<close>

fun py_iter :: "json \<Rightarrow> error + json list" where
  "py_iter (JArr ps) = Inr ps"
| "py_iter (JObj kv) = Inr (map (\<lambda>(k, v). JStr k) kv)"
| "py_iter (JStr s) = Inr (map (\<lambda>c. JStr [c]) s)"
| "py_iter v = Inl (TypeError (type_name v))"

text \<open>
  \<^verbatim>\<open>update_pools_list(existing_pools, disable_url, enable_url, new_pools)\<close>. The
  annotation says a list of dicts, but \<^verbatim>\<open>process_host\<close> passes whatever the document
  holds under \<^verbatim>\<open>"pools"\<close>, so the argument is any JSON value. The function returns
  \<^verbatim>\<open>new_pools\<close> when it is not \<^verbatim>\<open>None\<close>, and otherwise the object it was given,
  after the loop: a list with its entries updated; a dict or a str unchanged (their
  elements are strings, which the loop can only read).
\<close>

definition update_pools_list ::
  "json \<Rightarrow> string option \<Rightarrow> string option \<Rightarrow> json option \<Rightarrow> error + json" where
  "update_pools_list existing_pools disable_url enable_url new_pools =
     (case new_pools of
        Some n \<Rightarrow> Inr n
      | None \<Rightarrow>
          (case py_iter existing_pools of
             Inl err \<Rightarrow> Inl err
           | Inr elems \<Rightarrow>
               (case update_loop disable_url enable_url elems of
                  Inl err \<Rightarrow> Inl err
                | Inr elems' \<Rightarrow>
                    (case existing_pools of
                       JArr _ \<Rightarrow> Inr (JArr elems')
                     | _ \<Rightarrow> Inr existing_pools))))"

text \<open>
  Lines 208 to 215 of \<^verbatim>\<open>process_host\<close>, on the parsed document:
  \<^verbatim>\<open>
  user_val = config.get("user")
  pools_existing = config.get("pools", [])
  pools_updated = update_pools_list(pools_existing, ...)
  config["pools"] = pools_updated
  if user_val is not None: config["user"] = user_val
  \<close>
  \<^verbatim>\<open>config.get\<close> raises AttributeError when the document is not a JSON object. The
  default \<^verbatim>\<open>[]\<close> stands in only for an absent key, not for a stored null.
\<close>

definition mutate_config ::
  "json \<Rightarrow> string option \<Rightarrow> string option \<Rightarrow> json option \<Rightarrow> error + json" where
  "mutate_config config disable_url enable_url new_pools =
     (case config of
        JObj kv \<Rightarrow>
          (let user_val = dict_get kv ''user'';
               pools_existing = (case dict_get kv ''pools'' of None \<Rightarrow> JArr [] | Some v \<Rightarrow> v)
           in case update_pools_list pools_existing disable_url enable_url new_pools of
                Inl err \<Rightarrow> Inl err
              | Inr pools_updated \<Rightarrow>
                  (let kv1 = dict_set kv ''pools'' pools_updated
                   in Inr (JObj (case user_val of
                                   None \<Rightarrow> kv1
                                 | Some JNull \<Rightarrow> kv1
                                 | Some v \<Rightarrow> dict_set kv1 ''user'' v))))
      | _ \<Rightarrow> Inl (AttributeError (type_name config)))"


section \<open>Text helpers\<close>

text \<open>
  Python's \<^verbatim>\<open>str.lower\<close>, \<^verbatim>\<open>in\<close> on strings, \<^verbatim>\<open>str.strip\<close> and the decimal
  rendering of an int, on ASCII text (the replies of the remote shell are decoded with
  \<^verbatim>\<open>errors="ignore"\<close>; code points beyond ASCII are outside this model).
\<close>

definition lower_char :: "char \<Rightarrow> char" where
  "lower_char c =
     (let n = (of_char c :: nat) in if 65 \<le> n \<and> n \<le> 90 then char_of (n + 32) else c)"

definition lower :: "string \<Rightarrow> string" where
  "lower s = map lower_char s"

fun contains :: "string \<Rightarrow> string \<Rightarrow> bool" where
  "contains sub [] = (sub = [])"
| "contains sub (c # cs) = (prefix sub (c # cs) \<or> contains sub cs)"

definition is_space :: "char \<Rightarrow> bool" where
  "is_space c = (let n = (of_char c :: nat) in (9 \<le> n \<and> n \<le> 13) \<or> (28 \<le> n \<and> n \<le> 32))"

definition strip :: "string \<Rightarrow> string" where
  "strip s = rev (dropWhile is_space (rev (dropWhile is_space s)))"

fun str_of_nat :: "nat \<Rightarrow> string" where
  "str_of_nat n =
     (if n < 10 then [char_of (48 + n)] else str_of_nat (n div 10) @ [char_of (48 + n mod 10)])"

declare str_of_nat.simps [simp del]

definition str_of_int :: "int \<Rightarrow> string" where
  "str_of_int i = (if i < 0 then ''-'' @ str_of_nat (nat (- i)) else str_of_nat (nat i))"

text \<open>
  A Python exception, as the messages render it: \<^verbatim>\<open>type(e).__name__\<close> and \<^verbatim>\<open>str(e)\<close>.
\<close>

type_synonym exc = "string \<times> string"

definition render_exc :: "exc \<Rightarrow> string" where
  "render_exc e = fst e @ '': '' @ snd e"

fun exc_of_error :: "error \<Rightarrow> exc" where
  "exc_of_error (AttributeError t) =
     (''AttributeError'', [CHR 0x27] @ t @ [CHR 0x27] @ '' object has no attribute '' @
        [CHR 0x27] @ ''get'' @ [CHR 0x27])"
| "exc_of_error (TypeError t) =
     (''TypeError'', [CHR 0x27] @ t @ [CHR 0x27] @ '' object is not iterable'')"

section \<open>The switch trigger: \<^verbatim>\<open>remote_send_switchpool\<close>\<close>

text \<open>
  The remote command ends in \<^verbatim>\<open>|| true\<close>; what it printed decides. The argument is
  what \<^verbatim>\<open>run_ssh_command\<close> returned: exit status, stdout, stderr.
  \<^verbatim>\<open>
  combined = (out + err).lower()
  if "ok|" in combined: return True, "switchpool ok"
  return False, combined.strip() or f"exit_status={es}"
  \<close>
\<close>

definition remote_send_switchpool :: "int \<times> string \<times> string \<Rightarrow> bool \<times> string" where
  "remote_send_switchpool reply =
     (case reply of (es, out, err) \<Rightarrow>
        (let combined = lower (out @ err)
         in if contains ''ok|'' combined then (True, ''switchpool ok'')
            else (False, if strip combined \<noteq> [] then strip combined
                         else ''exit_status='' @ str_of_int es)))"

text \<open>
  The marker as the specification words it, for comparison with the code: some line of the
  combined text begins with the ok-prefix, compared case-insensitively.
\<close>

fun split_lines :: "string \<Rightarrow> string list" where
  "split_lines [] = [[]]"
| "split_lines (c # cs) =
     (if c = CHR 0x0A then [] # split_lines cs
      else (case split_lines cs of l # ls \<Rightarrow> (c # l) # ls | [] \<Rightarrow> [[c]]))"

definition spec_line_marker :: "string \<Rightarrow> bool" where
  "spec_line_marker text = list_ex (\<lambda>l. prefix ''ok|'' (lower l)) (split_lines text)"

section \<open>The remote host and the rotation script\<close>

text \<open>
  The files of one remote host that the tool touches: the live config, the original
  snapshot \<^verbatim>\<open>config.json.orig\<close> and the numbered files \<^verbatim>\<open>config.json.N\<close> of the
  backup directory (\<open>None\<close>: the file does not exist).
\<close>

record host =
  live :: "string option"
  orig :: "string option"
  slots :: "nat \<Rightarrow> string option"

text \<open>
  The commands of the script of \<^verbatim>\<open>make_remote_backup\<close>. Each can fail for reasons the
  file contents do not decide (permissions, a full disk, an I/O error); a predicate on the
  steps says which do. A failing \<^verbatim>\<open>mkdir\<close>, \<^verbatim>\<open>cd\<close>, \<^verbatim>\<open>rm\<close> or \<^verbatim>\<open>mv\<close> (a
  rename inside one directory) leaves the files as they were. A failing \<^verbatim>\<open>cp\<close> may
  already have created its destination: a second function on the steps says what it left
  there, nothing (\<open>None\<close>: the destination was never opened) or an empty or truncated
  file (\<open>Some\<close> of what was written).
\<close>

datatype step = Mkdir | Cd | CpOrig | Rm5 | Mv nat | CpSlot1

text \<open>
  \<^verbatim>\<open>for i in 4 3 2 1; do if [ -f config.json.$i ]; then mv config.json.$i config.json.$((i+1)); fi; done\<close>
  under \<^verbatim>\<open>set -e\<close>: a failing \<^verbatim>\<open>mv\<close> ends the script (\<open>Inl\<close>). \<^verbatim>\<open>mv\<close> renames, replacing
  the destination.
\<close>

fun mv_loop :: "(step \<Rightarrow> bool) \<Rightarrow> nat list \<Rightarrow> host \<Rightarrow> host + host" where
  "mv_loop fails [] h = Inr h"
| "mv_loop fails (i # rest) h =
     (if slots h i \<noteq> None then
        (if fails (Mv i) then Inl h
         else mv_loop fails rest (h\<lparr>slots := (slots h)(i := None, Suc i := slots h i)\<rparr>))
      else mv_loop fails rest h)"

text \<open>
  \<^verbatim>\<open>cp {config_path} config.json.X 2>/dev/null || true\<close>, as the new content of the
  destination, given the source and the destination before. Without a source the copy
  fails before it opens the destination. A copy that fails later leaves what the second
  function says; the destination keeps what it held when the copy never opened it. Either
  way the script goes on.
\<close>

definition cp_result ::
  "(step \<Rightarrow> bool) \<Rightarrow> (step \<Rightarrow> string option) \<Rightarrow> step \<Rightarrow> string option \<Rightarrow> string option \<Rightarrow>
   string option" where
  "cp_result fails leaves s src dst =
     (case src of
        None \<Rightarrow> dst
      | Some c \<Rightarrow>
          (if fails s then (case leaves s of None \<Rightarrow> dst | Some t \<Rightarrow> Some t)
           else Some c))"

definition cp_orig :: "(step \<Rightarrow> bool) \<Rightarrow> (step \<Rightarrow> string option) \<Rightarrow> host \<Rightarrow> host" where
  "cp_orig fails leaves h =
     (if orig h = None then h\<lparr>orig := cp_result fails leaves CpOrig (live h) (orig h)\<rparr>
      else h)"

definition rm_slot5 :: "(step \<Rightarrow> bool) \<Rightarrow> host \<Rightarrow> host" where
  "rm_slot5 fails h =
     (if slots h 5 \<noteq> None then
        (if fails Rm5 then h else h\<lparr>slots := (slots h)(5 := None)\<rparr>)
      else h)"

definition cp_slot1 :: "(step \<Rightarrow> bool) \<Rightarrow> (step \<Rightarrow> string option) \<Rightarrow> host \<Rightarrow> host" where
  "cp_slot1 fails leaves h =
     h\<lparr>slots := (slots h)(1 := cp_result fails leaves CpSlot1 (live h) (slots h 1))\<rparr>"

text \<open>
  The whole script, giving its exit status and the files afterwards:
  \<^verbatim>\<open>
  set -e
  mkdir -p {backup_dir}
  cd {backup_dir}
  if [ ! -f config.json.orig ]; then cp {config_path} config.json.orig 2>/dev/null || true; fi
  [ -f config.json.5 ] && rm -f config.json.5 || true
  for i in 4 3 2 1; do ... done
  cp {config_path} config.json.1 2>/dev/null || true
  \<close>
  The status of a script that \<^verbatim>\<open>set -e\<close> ends is that of the failing command, written 1.
\<close>

definition rotation_script ::
  "(step \<Rightarrow> bool) \<Rightarrow> (step \<Rightarrow> string option) \<Rightarrow> host \<Rightarrow> int \<times> host" where
  "rotation_script fails leaves h =
     (if fails Mkdir then (1, h)
      else if fails Cd then (1, h)
      else (case mv_loop fails [4, 3, 2, 1] (rm_slot5 fails (cp_orig fails leaves h)) of
              Inl h' \<Rightarrow> (1, h')
            | Inr h' \<Rightarrow> (0, cp_slot1 fails leaves h')))"

section \<open>The per-host workflow: \<^verbatim>\<open>process_host\<close>\<close>

record host_result =
  ip :: string
  success :: bool
  updated :: bool
  switched :: bool
  msg :: string

text \<open>
  Everything outside the program that one host's workflow meets: the exceptions paramiko
  raises and what the remote commands answer. \<open>client_exc\<close> is an exception raised
  by lines 171 and 172, before the first \<^verbatim>\<open>try\<close>; it is the only one that leaves
  \<^verbatim>\<open>process_host\<close>. \<open>backup_exc\<close> is raised by \<^verbatim>\<open>exec_command\<close> before the script
  starts. \<open>step_fails\<close> and \<open>cp_leaves\<close> say which commands of the rotation script
  fail on this host and what its failing copies leave behind. A read can fail with an \<^verbatim>\<open>IOError\<close>, which \<^verbatim>\<open>process_host\<close> catches by
  name, or with another exception (an \<^verbatim>\<open>SSHException\<close> of \<^verbatim>\<open>open_sftp\<close>, a
  \<^verbatim>\<open>UnicodeDecodeError\<close>), which it does not. A failed write says what it left in the
  file, which \<^verbatim>\<open>sftp.open(path, 'w')\<close> has truncated by then.
\<close>

datatype read_fault = ReadIOError exc | ReadOtherError exc

record world =
  client_exc :: "exc option"
  connect_exc :: "exc option"
  resolve_config_exc :: "exc option"
  resolve_backup_exc :: "exc option"
  backup_exc :: "exc option"
  step_fails :: "step \<Rightarrow> bool"
  cp_leaves :: "step \<Rightarrow> string option"
  backup_out :: string
  backup_err :: string
  read_fault :: "read_fault option"
  write_fault :: "(exc \<times> string option) option"
  switch_reply :: "exc + (int \<times> string \<times> string)"

text \<open>
  What the model records beside the result: the remote operations in the order they were
  issued, and the statement at which \<^verbatim>\<open>process_host\<close> stopped (one of its early
  returns, the \<^verbatim>\<open>except Exception\<close> handler of line 238, or the end of the
  \<^verbatim>\<open>try\<close> block).
\<close>

datatype action = Connect | ResolvePath | Backup | ReadConfig | WriteConfig | SwitchPool

datatype ending =
  ConnectFailed | BackupFailed | ReadFailed | ParseFailed | WriteFailed | Unhandled | Completed

record outcome =
  result :: host_result
  remote :: host
  trace :: "action list"
  ending :: ending

definition initial_result :: "string \<Rightarrow> host_result" where
  "initial_result a = \<lparr>ip = a, success = False, updated = False, switched = False, msg = []\<rparr>"

text \<open>Line 239: \<^verbatim>\<open>result["msg"] = f"Unhandled error: {type(e).__name__}: {e}"\<close>.\<close>

definition unhandled :: "host_result \<Rightarrow> exc \<Rightarrow> host \<Rightarrow> action list \<Rightarrow> outcome" where
  "unhandled r e h tr =
     \<lparr>result = r\<lparr>msg := ''Unhandled error: '' @ render_exc e\<rparr>, remote = h, trace = tr,
      ending = Unhandled\<rparr>"

text \<open>
  \<^verbatim>\<open>make_remote_backup\<close>: \<^verbatim>\<open>success = (es == 0)\<close>, \<^verbatim>\<open>msg = (out + err).strip()\<close>.
\<close>

definition make_remote_backup :: "world \<Rightarrow> host \<Rightarrow> exc + ((bool \<times> string) \<times> host)" where
  "make_remote_backup w h =
     (case backup_exc w of
        Some e \<Rightarrow> Inl e
      | None \<Rightarrow>
          (case rotation_script (step_fails w) (cp_leaves w) h of
             (es, h') \<Rightarrow> Inr ((es = 0, strip (backup_out w @ backup_err w)), h')))"

text \<open>
  Lines 229 to 236: the optional switch trigger and the final \<^verbatim>\<open>success\<close>. An
  exception of \<^verbatim>\<open>run_ssh_command\<close> goes to the handler of line 238, past line 236.
\<close>

definition switch_stage :: "world \<Rightarrow> bool \<Rightarrow> host_result \<Rightarrow> host \<Rightarrow> action list \<Rightarrow> outcome" where
  "switch_stage w do_switchpool r h tr =
     (if do_switchpool then
        (case switch_reply w of
           Inl e \<Rightarrow> unhandled r e h (tr @ [SwitchPool])
         | Inr reply \<Rightarrow>
             (case remote_send_switchpool reply of
                (switched_ok, switched_msg) \<Rightarrow>
                  (let r1 = r\<lparr>switched := switched_ok,
                              msg := (if msg r \<noteq> [] then msg r @ '' | '' else msg r) @
                                     ''switchpool: '' @ switched_msg\<rparr>
                   in \<lparr>result = r1\<lparr>success := (updated r1 \<or> switched r1)\<rparr>, remote = h,
                       trace = tr @ [SwitchPool], ending = Completed\<rparr>)))
      else \<lparr>result = r\<lparr>success := (updated r \<or> switched r)\<rparr>, remote = h, trace = tr,
            ending = Completed\<rparr>)"

text \<open>
  Lines 217 to 227: serialise and write. \<^verbatim>\<open>json.dumps\<close> is a parameter.
\<close>

definition write_stage ::
  "(json \<Rightarrow> string) \<Rightarrow> world \<Rightarrow> bool \<Rightarrow> host_result \<Rightarrow> host \<Rightarrow> action list \<Rightarrow> json \<Rightarrow> outcome" where
  "write_stage dumps w do_switchpool r h tr config =
     (case write_fault w of
        Some (e, left) \<Rightarrow>
          \<lparr>result = r\<lparr>msg := ''write config failed: '' @ render_exc e\<rparr>,
           remote = h\<lparr>live := left\<rparr>, trace = tr @ [WriteConfig], ending = WriteFailed\<rparr>
      | None \<Rightarrow>
          switch_stage w do_switchpool (r\<lparr>updated := True, msg := ''config updated''\<rparr>)
            (h\<lparr>live := Some (dumps config)\<rparr>) (tr @ [WriteConfig]))"

text \<open>
  Lines 201 to 215: parse and mutate. \<^verbatim>\<open>json.loads\<close> is a parameter; \<open>Inl\<close> is the
  exception it raised.
\<close>

definition mutate_stage ::
  "(string \<Rightarrow> exc + json) \<Rightarrow> (json \<Rightarrow> string) \<Rightarrow> world \<Rightarrow> string option \<Rightarrow> string option \<Rightarrow>
   json option \<Rightarrow> bool \<Rightarrow> host_result \<Rightarrow> host \<Rightarrow> action list \<Rightarrow> string \<Rightarrow> outcome" where
  "mutate_stage loads dumps w disable_url enable_url new_pools do_switchpool r h tr data =
     (case loads data of
        Inl e \<Rightarrow>
          \<lparr>result = r\<lparr>msg := ''json parse failed: '' @ render_exc e\<rparr>, remote = h, trace = tr,
           ending = ParseFailed\<rparr>
      | Inr config \<Rightarrow>
          (case mutate_config config disable_url enable_url new_pools of
             Inl err \<Rightarrow> unhandled r (exc_of_error err) h tr
           | Inr config' \<Rightarrow> write_stage dumps w do_switchpool r h tr config'))"

text \<open>
  Lines 192 to 199: read the live config over SFTP. A missing file is an \<^verbatim>\<open>IOError\<close>.
\<close>

definition read_stage ::
  "(string \<Rightarrow> exc + json) \<Rightarrow> (json \<Rightarrow> string) \<Rightarrow> world \<Rightarrow> string option \<Rightarrow> string option \<Rightarrow>
   json option \<Rightarrow> bool \<Rightarrow> host_result \<Rightarrow> host \<Rightarrow> action list \<Rightarrow> outcome" where
  "read_stage loads dumps w disable_url enable_url new_pools do_switchpool r h tr =
     (case read_fault w of
        Some (ReadIOError e) \<Rightarrow>
          \<lparr>result = r\<lparr>msg := ''read config failed: '' @ render_exc e\<rparr>, remote = h,
           trace = tr @ [ReadConfig], ending = ReadFailed\<rparr>
      | Some (ReadOtherError e) \<Rightarrow> unhandled r e h (tr @ [ReadConfig])
      | None \<Rightarrow>
          (case live h of
             None \<Rightarrow>
               \<lparr>result = r\<lparr>msg := ''read config failed: '' @
                    render_exc (''FileNotFoundError'', ''[Errno 2] No such file'')\<rparr>,
                remote = h, trace = tr @ [ReadConfig], ending = ReadFailed\<rparr>
           | Some data \<Rightarrow>
               mutate_stage loads dumps w disable_url enable_url new_pools do_switchpool r h
                 (tr @ [ReadConfig]) data))"

text \<open>Line 185: \<^verbatim>\<open>if disable_url or enable_url or new_pools is not None\<close>.\<close>

definition mutation_requested :: "string option \<Rightarrow> string option \<Rightarrow> json option \<Rightarrow> bool" where
  "mutation_requested disable_url enable_url new_pools =
     (truthy disable_url \<or> truthy enable_url \<or> new_pools \<noteq> None)"

text \<open>
  Lines 185 to 190: the backup gate. The username, password and port of the source only
  feed \<^verbatim>\<open>client.connect\<close>, whose outcome the world gives.
\<close>

definition backup_stage ::
  "(string \<Rightarrow> exc + json) \<Rightarrow> (json \<Rightarrow> string) \<Rightarrow> world \<Rightarrow> string option \<Rightarrow> string option \<Rightarrow>
   json option \<Rightarrow> bool \<Rightarrow> host_result \<Rightarrow> host \<Rightarrow> action list \<Rightarrow> outcome" where
  "backup_stage loads dumps w disable_url enable_url new_pools do_switchpool r h tr =
     (if mutation_requested disable_url enable_url new_pools then
        (case make_remote_backup w h of
           Inl e \<Rightarrow> unhandled r e h (tr @ [Backup])
         | Inr ((ok, bak_msg), h') \<Rightarrow>
             (if \<not> ok then
                \<lparr>result = r\<lparr>msg := ''backup failed: '' @ bak_msg\<rparr>, remote = h',
                 trace = tr @ [Backup], ending = BackupFailed\<rparr>
              else read_stage loads dumps w disable_url enable_url new_pools do_switchpool r h'
                     (tr @ [Backup])))
      else switch_stage w do_switchpool r h tr)"

definition process_host ::
  "(string \<Rightarrow> exc + json) \<Rightarrow> (json \<Rightarrow> string) \<Rightarrow> world \<Rightarrow> host \<Rightarrow> string \<Rightarrow> string option \<Rightarrow>
   string option \<Rightarrow> json option \<Rightarrow> bool \<Rightarrow> outcome" where
  "process_host loads dumps w h a disable_url enable_url new_pools do_switchpool =
     (let r = initial_result a in
      case connect_exc w of
        Some e \<Rightarrow>
          \<lparr>result = r\<lparr>msg := ''SSH connect failed: '' @ render_exc e\<rparr>, remote = h,
           trace = [Connect], ending = ConnectFailed\<rparr>
      | None \<Rightarrow>
          (case resolve_config_exc w of
             Some e \<Rightarrow> unhandled r e h [Connect, ResolvePath]
           | None \<Rightarrow>
               (case resolve_backup_exc w of
                  Some e \<Rightarrow> unhandled r e h [Connect, ResolvePath, ResolvePath]
                | None \<Rightarrow>
                    backup_stage loads dumps w disable_url enable_url new_pools do_switchpool r h
                      [Connect, ResolvePath, ResolvePath])))"

section \<open>The orchestrator: the collecting loop of \<^verbatim>\<open>main\<close>\<close>



text \<open>
  Lines 315 to 318: \<^verbatim>\<open>try: res = fut.result()\<close>, and the dict built when it raises
  (\<^verbatim>\<open>f"executor error: {e}"\<close> renders the text of the exception only).
\<close>

fun future_result :: "(exc + host_result) \<times> string \<Rightarrow> host_result" where
  "future_result (Inr res, a) = res"
| "future_result (Inl e, a) =
     \<lparr>ip = a, success = False, updated = False, switched = False,
      msg = ''executor error: '' @ snd e\<rparr>"



section \<open>Sequences of rotations, and the flags of an outcome\<close>


text \<open>
  The relation between the three flags of a result that every path of
  \<^verbatim>\<open>process_host\<close> establishes: line 236 sets \<^verbatim>\<open>success\<close> from the other two,
  and the handler of line 238 leaves it false.
\<close>

definition flags_ok :: "outcome \<Rightarrow> bool" where
  "flags_ok out =
     (success (result out) =
        (ending out \<noteq> Unhandled \<and> (updated (result out) \<or> switched (result out))))"

section \<open>Concrete inputs for the examples\<close>

definition demo_pools :: "json list" where
  "demo_pools =
     [JObj [(''name'', JStr ''west''), (''url'', JStr ''stratum+tcp://a:1''),
            (''timeout'', JInt 60), (''disabled'', JInt 0)],
      JObj [(''url'', JStr ''stratum+tcp://b:2''), (''disabled'', JInt 1)]]"

definition demo_config :: json where
  "demo_config =
     JObj [(''user'', JStr ''wallet.worker''), (''pools'', JArr demo_pools),
           (''threads'', JInt 8)]"

definition demo_loads :: "string \<Rightarrow> exc + json" where
  "demo_loads s =
     (if s = ''cfg-v1'' then Inr demo_config
      else Inl (''JSONDecodeError'', ''Expecting value''))"

definition demo_dumps :: "json \<Rightarrow> string" where
  "demo_dumps j = (if j = demo_config then ''cfg-v1'' else ''cfg-v2'')"

definition demo_host :: host where
  "demo_host = \<lparr>live = Some ''cfg-v1'', orig = None, slots = (\<lambda>i. None)\<rparr>"

text \<open>A world in which nothing fails and the agent answers the switch command.\<close>

definition quiet_world :: world where
  "quiet_world =
     \<lparr>client_exc = None, connect_exc = None, resolve_config_exc = None,
      resolve_backup_exc = None, backup_exc = None, step_fails = (\<lambda>s. False),
      cp_leaves = (\<lambda>s. None),
      backup_out = [], backup_err = [], read_fault = None, write_fault = None,
      switch_reply = Inr (0, ''ok|'', [])\<rparr>"


text \<open>The demo pools after Disable of the first url, and the demo document with them.\<close>

definition demo_pools_disabled :: "json list" where
  "demo_pools_disabled =
     [JObj [(''name'', JStr ''west''), (''url'', JStr ''stratum+tcp://a:1''),
            (''timeout'', JInt 60), (''disabled'', JInt 1)],
      JObj [(''url'', JStr ''stratum+tcp://b:2''), (''disabled'', JInt 1)]]"

definition demo_config_disabled :: json where
  "demo_config_disabled =
     JObj [(''user'', JStr ''wallet.worker''), (''pools'', JArr demo_pools_disabled),
           (''threads'', JInt 8)]"



text \<open>The backup directory cannot be created: \<^verbatim>\<open>mkdir -p\<close> fails and says so.\<close>

definition no_backup_dir_world :: world where
  "no_backup_dir_world =
     quiet_world\<lparr>step_fails := (\<lambda>s. s = Mkdir),
                 backup_err := ''mkdir: Permission denied''\<rparr>"

text \<open>The connection is lost when the switch command is sent.\<close>

definition lost_channel_world :: world where
  "lost_channel_world = quiet_world\<lparr>switch_reply := Inl (''SSHException'', ''Channel closed.'')\<rparr>"


section \<open>Dicts and the loop body\<close>

lemma dict_get_set: "dict_get (dict_set p k v) k' = (if k' = k then Some v else dict_get p k')"
  by (induction p) (auto simp: dict_get_def)

lemma set_disabled_eq: "py_eq_int (dict_get (set_disabled p n) ''disabled'') n"
  by (simp add: set_disabled_def dict_get_set)

lemma set_disabled_other: "k \<noteq> ''disabled'' \<Longrightarrow> dict_get (set_disabled p n) k = dict_get p k"
  by (simp add: set_disabled_def dict_get_set)

lemma set_disabled_idem: "set_disabled (set_disabled p n) n = set_disabled p n"
  using set_disabled_eq [of p n] by (simp add: set_disabled_def [of "set_disabled p n"])

lemma set_disabled_not_other:
  assumes "m \<noteq> n"
  shows "\<not> py_eq_int (dict_get (set_disabled p n) ''disabled'') m"
proof (cases "dict_get p ''disabled''")
  case None
  with assms show ?thesis by (simp add: set_disabled_def dict_get_set)
next
  case (Some v)
  with assms show ?thesis by (cases v) (auto simp: set_disabled_def dict_get_set)
qed

lemma set_disabled_fresh:
  "\<not> py_eq_int (dict_get p ''disabled'') n \<Longrightarrow>
   dict_get (set_disabled p n) ''disabled'' = Some (JInt n)"
  by (simp add: set_disabled_def dict_get_set)

lemma url_test_set_disabled: "url_test u (JObj (set_disabled p n)) = url_test u (JObj p)"
  by (cases u) (simp_all add: set_disabled_other)

lemma url_test_True_dict: "url_test u p = Inr True \<Longrightarrow> \<exists>kv. p = JObj kv"
  by (cases u; cases p) (auto split: if_splits)

lemma update_entry_idem: "update_entry d e p = Inr p' \<Longrightarrow> update_entry d e p' = Inr p'"
  unfolding update_entry_def
  by (auto split: sum.splits bool.splits json.splits
      simp: url_test_set_disabled set_disabled_idem dest: url_test_True_dict)



lemma update_entry_both:
  "u \<noteq> [] \<Longrightarrow> py_eq_str (dict_get kv ''url'') u \<Longrightarrow>
   update_entry (Some u) e (JObj kv) = Inr (JObj (set_disabled kv 1))"
  by (simp add: update_entry_def)

section \<open>The loop over the pools\<close>

lemma update_loop_idem: "update_loop d e ps = Inr ps' \<Longrightarrow> update_loop d e ps' = Inr ps'"
proof (induction ps arbitrary: ps')
  case Nil
  then show ?case by simp
next
  case (Cons p ps)
  then show ?case by (auto split: sum.splits simp: update_entry_idem)
qed


lemma update_loop_nth:
  "update_loop d e ps = Inr ps' \<Longrightarrow> i < length ps \<Longrightarrow>
   update_entry d e (ps ! i) = Inr (ps' ! i)"
proof (induction ps arbitrary: ps' i)
  case Nil
  then show ?case by simp
next
  case (Cons p ps)
  then show ?case by (cases i) (auto split: sum.splits)
qed

lemma update_pools_list_arr:
  "update_pools_list (JArr ps) d e None = Inr out \<Longrightarrow>
   \<exists>ps'. out = JArr ps' \<and> update_loop d e ps = Inr ps'"
  by (auto simp: update_pools_list_def split: sum.splits)

lemma update_pools_list_idem:
  assumes "update_pools_list pools d e None = Inr pools'"
  shows "update_pools_list pools' d e None = Inr pools'"
proof (cases pools)
  case (JArr ps)
  with assms obtain ps' where 1: "update_loop d e ps = Inr ps'" and 2: "pools' = JArr ps'"
    by (auto simp: update_pools_list_def split: sum.splits)
  from update_loop_idem [OF 1] 2 show ?thesis
    by (simp add: update_pools_list_def)
next
  case (JObj kv)
  with assms show ?thesis by (auto simp: update_pools_list_def split: sum.splits)
next
  case (JStr s)
  with assms show ?thesis by (auto simp: update_pools_list_def split: sum.splits)
qed (use assms in \<open>auto simp: update_pools_list_def\<close>)


section \<open>Replace bypass\<close>

text \<open>
  C4. When a replacement list is supplied, the mutator returns exactly that list, whatever
  the existing pools and whatever disable and enable targets are supplied with it.
\<close>

theorem replace_bypass:
  "update_pools_list existing_pools disable_url enable_url (Some new_pools) = Inr new_pools"
  by (simp add: update_pools_list_def)

section \<open>Idempotence\<close>

text \<open>
  C5. Applying the same Disable or Enable mutation to the list it produced gives that list
  again. The statement covers every pair of targets, so Disable(url) alone
  (\<open>disable_url = Some url\<close>, \<open>enable_url = None\<close>) and Enable(url) alone are
  instances; a first application that raises has produced no list, and the exception is all
  there is on both sides.
\<close>

theorem mutation_idempotent:
  "(case update_pools_list pools disable_url enable_url None of
      Inl err \<Rightarrow> Inl err
    | Inr pools' \<Rightarrow> update_pools_list pools' disable_url enable_url None) =
   update_pools_list pools disable_url enable_url None"
  by (cases "update_pools_list pools disable_url enable_url None")
     (simp_all add: update_pools_list_idem)

lemma demo_disable_once:
  "update_pools_list (JArr demo_pools) (Some ''stratum+tcp://a:1'') None None =
     Inr (JArr demo_pools_disabled)"
  by (simp add: update_pools_list_def update_entry_def set_disabled_def dict_get_def
      demo_pools_def demo_pools_disabled_def)

lemma demo_mutate_config:
  "mutate_config demo_config (Some ''stratum+tcp://a:1'') None None = Inr demo_config_disabled"
  by (simp add: mutate_config_def demo_config_def demo_config_disabled_def dict_get_def
      demo_disable_once)

theorem mutation_idempotent_witness:
  "update_pools_list (JArr demo_pools) (Some ''stratum+tcp://a:1'') None None =
     Inr (JArr demo_pools_disabled) \<and>
   update_pools_list (JArr demo_pools_disabled) (Some ''stratum+tcp://a:1'') None None =
     Inr (JArr demo_pools_disabled)"
  using mutation_idempotent [where pools = "JArr demo_pools"
      and disable_url = "Some ''stratum+tcp://a:1''" and enable_url = None]
  by (simp add: demo_disable_once)

section \<open>Field preservation\<close>



section \<open>Disable before Enable\<close>

text \<open>
  C10. When the disable target and the enable target are the same (non-empty) url and an
  entry of the list has that url, the entry comes out of the disable branch: its
  \<open>disabled\<close> flag equals 1 and not 0 afterwards. The flag is the integer 1 unless it
  already equalled 1 in Python's sense (\<^verbatim>\<open>True\<close> or \<^verbatim>\<open>1.0\<close>), in which case the
  code leaves the stored value alone.
\<close>

theorem disable_precedence:
  assumes "update_pools_list (JArr ps) (Some url) (Some url) None = Inr out"
    and "url \<noteq> []" and "i < length ps" and "ps ! i = JObj kv"
    and "py_eq_str (dict_get kv ''url'') url"
  shows "\<exists>ps'. out = JArr ps' \<and> ps' ! i = JObj (set_disabled kv 1) \<and>
           py_eq_int (dict_get (set_disabled kv 1) ''disabled'') 1 \<and>
           \<not> py_eq_int (dict_get (set_disabled kv 1) ''disabled'') 0 \<and>
           (py_eq_int (dict_get kv ''disabled'') 1 \<or>
            dict_get (set_disabled kv 1) ''disabled'' = Some (JInt 1))"
proof -
  from update_pools_list_arr [OF assms(1)] obtain ps' where
    out: "out = JArr ps'" and loop: "update_loop (Some url) (Some url) ps = Inr ps'" by blast
  have "update_entry (Some url) (Some url) (ps ! i) = Inr (ps' ! i)"
    using loop assms(3) by (rule update_loop_nth)
  moreover have "update_entry (Some url) (Some url) (JObj kv) = Inr (JObj (set_disabled kv 1))"
    using assms(2, 5) by (rule update_entry_both)
  ultimately have nth: "ps' ! i = JObj (set_disabled kv 1)" by (simp add: assms(4))
  have one: "py_eq_int (dict_get (set_disabled kv 1) ''disabled'') 1"
    by (rule set_disabled_eq)
  have zero: "\<not> py_eq_int (dict_get (set_disabled kv 1) ''disabled'') 0"
    by (rule set_disabled_not_other) simp
  have int: "py_eq_int (dict_get kv ''disabled'') 1 \<or>
             dict_get (set_disabled kv 1) ''disabled'' = Some (JInt 1)"
    using set_disabled_fresh [of kv 1] by blast
  from out nth one zero int show ?thesis by blast
qed

theorem disable_precedence_witness:
  "update_pools_list (JArr demo_pools) (Some ''stratum+tcp://a:1'')
     (Some ''stratum+tcp://a:1'') None = Inr (JArr demo_pools_disabled) \<and>
   (\<exists>ps'. JArr demo_pools_disabled = JArr ps' \<and>
      ps' ! 0 = JObj (set_disabled
                  [(''name'', JStr ''west''), (''url'', JStr ''stratum+tcp://a:1''),
                   (''timeout'', JInt 60), (''disabled'', JInt 0)] 1) \<and>
      dict_get (set_disabled
                  [(''name'', JStr ''west''), (''url'', JStr ''stratum+tcp://a:1''),
                   (''timeout'', JInt 60), (''disabled'', JInt 0)] 1) ''disabled'' =
        Some (JInt 1))"
proof -
  have run: "update_pools_list (JArr demo_pools) (Some ''stratum+tcp://a:1'')
     (Some ''stratum+tcp://a:1'') None = Inr (JArr demo_pools_disabled)"
    by (simp add: update_pools_list_def update_entry_def set_disabled_def dict_get_def
        demo_pools_def demo_pools_disabled_def)
  have "\<exists>ps'. JArr demo_pools_disabled = JArr ps' \<and>
      ps' ! 0 = JObj (set_disabled
                  [(''name'', JStr ''west''), (''url'', JStr ''stratum+tcp://a:1''),
                   (''timeout'', JInt 60), (''disabled'', JInt 0)] 1) \<and>
      py_eq_int (dict_get (set_disabled
                  [(''name'', JStr ''west''), (''url'', JStr ''stratum+tcp://a:1''),
                   (''timeout'', JInt 60), (''disabled'', JInt 0)] 1) ''disabled'') 1 \<and>
      \<not> py_eq_int (dict_get (set_disabled
                  [(''name'', JStr ''west''), (''url'', JStr ''stratum+tcp://a:1''),
                   (''timeout'', JInt 60), (''disabled'', JInt 0)] 1) ''disabled'') 0 \<and>
      (py_eq_int (dict_get
                  [(''name'', JStr ''west''), (''url'', JStr ''stratum+tcp://a:1''),
                   (''timeout'', JInt 60), (''disabled'', JInt 0)] ''disabled'') 1 \<or>
       dict_get (set_disabled
                  [(''name'', JStr ''west''), (''url'', JStr ''stratum+tcp://a:1''),
                   (''timeout'', JInt 60), (''disabled'', JInt 0)] 1) ''disabled'' =
         Some (JInt 1))"
    by (rule disable_precedence [OF run]) (simp_all add: demo_pools_def dict_get_def)
  with run show ?thesis by (auto simp: dict_get_def)
qed

section \<open>The rotation script\<close>

text \<open>
  The loop touches only the numbered files it names and their successors; on a list in
  descending order no step sees the effect of an earlier one.
\<close>

lemma mv_loop_live: "live (case_sum id id (mv_loop F js h)) = live h"
  by (induction js arbitrary: h) simp_all



lemma rotation_script_snd:
  "snd (rotation_script F L h) =
     (if F Mkdir \<or> F Cd then h
      else (case mv_loop F [4, 3, 2, 1] (rm_slot5 F (cp_orig F L h)) of
              Inl h' \<Rightarrow> h' | Inr h' \<Rightarrow> cp_slot1 F L h'))"
  by (simp add: rotation_script_def split: sum.splits)

lemma rotation_script_live: "live (snd (rotation_script F L h)) = live h"
proof -
  let ?h2 = "rm_slot5 F (cp_orig F L h)"
  have "live ?h2 = live h" by (simp add: rm_slot5_def cp_orig_def)
  moreover have "live (case_sum id id (mv_loop F [4, 3, 2, 1] ?h2)) = live ?h2"
    by (rule mv_loop_live)
  ultimately show ?thesis
    unfolding rotation_script_snd
    by (cases "mv_loop F [4, 3, 2, 1] ?h2") (simp_all add: cp_slot1_def)
qed




lemma mv_loop_aborts_iff:
  "sorted_wrt (>) js \<Longrightarrow>
   isl (mv_loop F js h) \<longleftrightarrow> (\<exists>i\<in>set js. slots h i \<noteq> None \<and> F (Mv i))"
proof (induction js arbitrary: h)
  case Nil
  then show ?case by simp
next
  case (Cons i rest)
  let ?h1 = "h\<lparr>slots := (slots h)(i := None, Suc i := slots h i)\<rparr>"
  from Cons.prems have lt: "\<forall>j\<in>set rest. j < i" and srt: "sorted_wrt (>) rest" by auto
  have same: "\<And>j. j \<in> set rest \<Longrightarrow> slots ?h1 j = slots h j" using lt by auto
  have "(\<exists>j\<in>set rest. slots ?h1 j \<noteq> None \<and> F (Mv j)) \<longleftrightarrow>
        (\<exists>j\<in>set rest. slots h j \<noteq> None \<and> F (Mv j))"
    using same by (intro bex_cong) simp_all
  with Cons.IH [OF srt, of ?h1] Cons.IH [OF srt, of h] show ?case by auto
qed





lemma pre_loop_slots:
  "i \<noteq> 5 \<Longrightarrow> slots (rm_slot5 F (cp_orig F L h)) i = slots h i"
  by (simp add: rm_slot5_def cp_orig_def)

lemma exit_status_iff:
  "fst (rotation_script F L h) = 0 \<longleftrightarrow>
     (\<not> F Mkdir \<and> \<not> F Cd \<and> (\<forall>i\<in>{1..4}. slots h i \<noteq> None \<longrightarrow> \<not> F (Mv i)))"
proof -
  let ?h2 = "rm_slot5 F (cp_orig F L h)"
  have "isl (mv_loop F [4, 3, 2, 1] ?h2) \<longleftrightarrow>
        (\<exists>i\<in>set [4, 3, 2, 1]. slots ?h2 i \<noteq> None \<and> F (Mv i))"
    by (rule mv_loop_aborts_iff) simp
  also have "\<dots> \<longleftrightarrow> (\<exists>i\<in>{1..4}. slots h i \<noteq> None \<and> F (Mv i))"
  proof -
    have "set [4, 3, 2, 1] = {1..4::nat}" by auto
    moreover have "\<And>i. i \<in> {1..4::nat} \<Longrightarrow> slots ?h2 i = slots h i"
      by (rule pre_loop_slots) simp
    ultimately show ?thesis by simp
  qed
  finally have ab: "isl (mv_loop F [4, 3, 2, 1] ?h2) \<longleftrightarrow>
        (\<exists>i\<in>{1..4}. slots h i \<noteq> None \<and> F (Mv i))" .
  have "fst (rotation_script F L h) = 0 \<longleftrightarrow>
        (\<not> F Mkdir \<and> \<not> F Cd \<and> \<not> isl (mv_loop F [4, 3, 2, 1] ?h2))"
    by (cases "mv_loop F [4, 3, 2, 1] ?h2") (simp_all add: rotation_script_def)
  with ab show ?thesis by blast
qed













section \<open>Backup bound\<close>




section \<open>The switch trigger\<close>

lemma contains_sublist: "contains sub t \<longleftrightarrow> sublist sub t"
  by (induction t) (auto simp: sublist_Cons_right)

lemma split_lines_head: "split_lines t = l0 # ls \<Longrightarrow> prefix l0 t"
proof (induction t arbitrary: l0 ls)
  case Nil
  then show ?case by simp
next
  case (Cons c cs)
  then show ?case by (auto split: if_splits list.splits)
qed

lemma split_lines_sublist: "l \<in> set (split_lines t) \<Longrightarrow> sublist l t"
proof (induction t arbitrary: l)
  case Nil
  then show ?case by simp
next
  case (Cons c cs)
  show ?case
  proof (cases "c = CHR 0x0A")
    case True
    with Cons show ?thesis by (auto simp: sublist_Cons_right)
  next
    case False
    show ?thesis
    proof (cases "split_lines cs")
      case Nil
      with False Cons.prems show ?thesis by simp
    next
      case (Cons l0 ls)
      from split_lines_head [OF Cons] have pre: "prefix (c # l0) (c # cs)" by simp
      from Cons False \<open>l \<in> set (split_lines (c # cs))\<close>
      have "l = c # l0 \<or> l \<in> set (split_lines cs)" by auto
      then show ?thesis
      proof
        assume "l = c # l0"
        with pre show ?thesis using prefix_imp_sublist by blast
      next
        assume "l \<in> set (split_lines cs)"
        then have "sublist l cs" by (rule Cons.IH)
        then show ?thesis by (simp add: sublist_Cons_right)
      qed
    qed
  qed
qed

lemma lower_append: "lower (a @ b) = lower a @ lower b"
  by (simp add: lower_def)

lemma sublist_lower: "sublist l t \<Longrightarrow> sublist (lower l) (lower t)"
  unfolding sublist_def by (metis lower_append)

lemma spec_marker_implies:
  assumes "spec_line_marker t" shows "sublist ''ok|'' (lower t)"
proof -
  from assms obtain l where l: "l \<in> set (split_lines t)" and p: "prefix ''ok|'' (lower l)"
    by (auto simp: spec_line_marker_def list_ex_iff)
  from l have "sublist (lower l) (lower t)" by (intro sublist_lower split_lines_sublist)
  moreover from p have "sublist ''ok|'' (lower l)" by (rule prefix_imp_sublist)
  ultimately show ?thesis by (rule sublist_order.order_trans [rotated])
qed

text \<open>
  C3, as stated, fails: a reply whose only marker stands in the middle of a line is
  reported as a success, although no line of it begins with the marker.
\<close>

theorem switch_marker_counterexample:
  "fst (remote_send_switchpool (0, ''result=ok|'', [])) \<and>
   \<not> spec_line_marker (''result=ok|'' @ [])"
  by (simp add: remote_send_switchpool_def spec_line_marker_def lower_def lower_char_def
      prefix_def)

text \<open>
  C3, amended. The trigger reports success exactly when the combined output and error
  text, in lower case, contains \<^verbatim>\<open>ok|\<close> anywhere; a reply with a line that begins with
  the marker is one such. Any other reply is a soft failure whose message is the reply in
  lower case without surrounding white space, or the exit status when nothing is left.
\<close>

theorem switch_marker:
  "remote_send_switchpool (es, out, err) =
     (if sublist ''ok|'' (lower (out @ err)) then (True, ''switchpool ok'')
      else (False, if strip (lower (out @ err)) \<noteq> [] then strip (lower (out @ err))
                   else ''exit_status='' @ str_of_int es)) \<and>
   (spec_line_marker (out @ err) \<longrightarrow> fst (remote_send_switchpool (es, out, err)))"
proof -
  have eq: "remote_send_switchpool (es, out, err) =
     (if sublist ''ok|'' (lower (out @ err)) then (True, ''switchpool ok'')
      else (False, if strip (lower (out @ err)) \<noteq> [] then strip (lower (out @ err))
                   else ''exit_status='' @ str_of_int es))"
    by (simp add: remote_send_switchpool_def contains_sublist Let_def)
  moreover have "fst (remote_send_switchpool (es, out, err))" if "spec_line_marker (out @ err)"
    using spec_marker_implies [OF that] by (simp add: eq)
  ultimately show ?thesis by blast
qed

theorem switch_marker_witness:
  "remote_send_switchpool (1, ''Connection refused'', []) = (False, ''connection refused'') \<and>
   spec_line_marker (''OK|switched'' @ []) \<and>
   fst (remote_send_switchpool (0, ''OK|switched'', []))"
proof -
  have l1: "lower ''Connection refused'' = ''connection refused''" by code_simp
  have l2: "lower ''OK|switched'' = ''ok|switched''" by code_simp
  have sp: "spec_line_marker (''OK|switched'' @ [])"
    by (simp add: spec_line_marker_def l2)
  have no: "\<not> sublist ''ok|'' ''connection refused''"
    by (simp add: contains_sublist [symmetric])
  have st: "strip ''connection refused'' = ''connection refused''"
    by (simp add: strip_def is_space_def)
  from switch_marker [of 1 "''Connection refused''" "[]"]
  have "remote_send_switchpool (1, ''Connection refused'', []) = (False, ''connection refused'')"
    by (simp add: l1 no st)
  moreover from switch_marker [of 0 "''OK|switched''" "[]"] sp
  have "fst (remote_send_switchpool (0, ''OK|switched'', []))" by blast
  ultimately show ?thesis using sp by blast
qed

section \<open>The stages of the workflow\<close>

lemma flags_ok_record:
  "flags_ok \<lparr>result = r, remote = h, trace = tr, ending = en\<rparr> =
     (success r = (en \<noteq> Unhandled \<and> (updated r \<or> switched r)))"
  by (simp add: flags_ok_def)

lemma flags_ok_unhandled: "\<not> success r \<Longrightarrow> flags_ok (unhandled r e h tr)"
  by (simp add: flags_ok_def unhandled_def)

lemma switch_stage_flags:
  "\<not> success r \<Longrightarrow> flags_ok (switch_stage w sw r h tr)"
  by (simp add: switch_stage_def flags_ok_record flags_ok_unhandled Let_def
      split: sum.splits prod.splits)

lemma write_stage_flags:
  "\<not> success r \<Longrightarrow> \<not> updated r \<Longrightarrow> \<not> switched r \<Longrightarrow> flags_ok (write_stage dumps w sw r h tr c)"
  by (simp add: write_stage_def switch_stage_flags flags_ok_record split: option.splits prod.splits)

lemma mutate_stage_flags:
  "\<not> success r \<Longrightarrow> \<not> updated r \<Longrightarrow> \<not> switched r \<Longrightarrow>
   flags_ok (mutate_stage loads dumps w d e n sw r h tr data)"
  by (simp add: mutate_stage_def write_stage_flags flags_ok_unhandled flags_ok_record
      split: sum.splits)

lemma read_stage_flags:
  "\<not> success r \<Longrightarrow> \<not> updated r \<Longrightarrow> \<not> switched r \<Longrightarrow>
   flags_ok (read_stage loads dumps w d e n sw r h tr)"
  by (simp add: read_stage_def mutate_stage_flags flags_ok_unhandled flags_ok_record
      split: option.splits read_fault.splits)

lemma backup_stage_flags:
  "\<not> success r \<Longrightarrow> \<not> updated r \<Longrightarrow> \<not> switched r \<Longrightarrow>
   flags_ok (backup_stage loads dumps w d e n sw r h tr)"
  by (simp add: backup_stage_def read_stage_flags switch_stage_flags flags_ok_unhandled
      flags_ok_record split: sum.splits prod.splits)

lemma process_host_flags: "flags_ok (process_host loads dumps w h a d e n sw)"
proof -
  have r: "\<not> success (initial_result a)" "\<not> updated (initial_result a)"
    "\<not> switched (initial_result a)" by (simp_all add: initial_result_def)
  show ?thesis
    unfolding process_host_def Let_def
    by (simp add: backup_stage_flags r flags_ok_unhandled flags_ok_record split: option.splits)
qed







lemma quiet_rotation:
  obtains h' where "rotation_script (\<lambda>s. False) L h = (0, h')" and "live h' = live h"
proof -
  obtain es h' where rs: "rotation_script (\<lambda>s. False) L h = (es, h')"
    by (cases "rotation_script (\<lambda>s. False) L h")
  have "fst (rotation_script (\<lambda>s. False) L h) = 0" by (simp add: exit_status_iff)
  then have es: "es = 0" by (simp add: rs)
  have "live (snd (rotation_script (\<lambda>s. False) L h)) = live h" by (rule rotation_script_live)
  then have "live h' = live h" by (simp add: rs)
  with rs es show ?thesis by (auto intro: that)
qed

lemma quiet_run:
  "result (process_host demo_loads demo_dumps quiet_world demo_host ''10.0.0.1''
      (Some ''stratum+tcp://a:1'') None None True) =
   \<lparr>ip = ''10.0.0.1'', success = True, updated = True, switched = True,
    msg = ''config updated | switchpool: switchpool ok''\<rparr>"
proof -
  obtain h' where rs: "rotation_script (\<lambda>s. False) (\<lambda>s. None) demo_host = (0, h')"
    and "live h' = live demo_host" by (rule quiet_rotation)
  then have lv: "live h' = Some ''cfg-v1''" by (simp add: demo_host_def)
  show ?thesis
    by (simp add: process_host_def backup_stage_def make_remote_backup_def read_stage_def
        mutate_stage_def write_stage_def switch_stage_def unhandled_def initial_result_def
        mutation_requested_def quiet_world_def rs lv demo_loads_def
        demo_mutate_config remote_send_switchpool_def lower_def lower_char_def)
qed

section \<open>Backup before mutation\<close>

text \<open>
  C1. When a mutation is requested, the session is up (connection and path resolution did
  not raise, so the rotation is invoked) and the rotation script exits with a status other
  than 0, the workflow returns at once: success is false, the message is the backup
  failure with the script's output, the last remote operation is the rotation, so the live
  config is neither read nor written after it, and its content is what it was before the
  run.
\<close>

theorem backup_failure_aborts:
  assumes "mutation_requested d e n"
    and "connect_exc w = None" "resolve_config_exc w = None" "resolve_backup_exc w = None"
    and "backup_exc w = None"
    and "fst (rotation_script (step_fails w) (cp_leaves w) h) \<noteq> 0"
  shows "process_host loads dumps w h a d e n sw =
           \<lparr>result = \<lparr>ip = a, success = False, updated = False, switched = False,
                      msg = ''backup failed: '' @ strip (backup_out w @ backup_err w)\<rparr>,
            remote = snd (rotation_script (step_fails w) (cp_leaves w) h),
            trace = [Connect, ResolvePath, ResolvePath, Backup],
            ending = BackupFailed\<rparr> \<and>
         live (snd (rotation_script (step_fails w) (cp_leaves w) h)) = live h"
proof -
  obtain es h' where rs: "rotation_script (step_fails w) (cp_leaves w) h = (es, h')"
    by (cases "rotation_script (step_fails w) (cp_leaves w) h")
  have "live (snd (rotation_script (step_fails w) (cp_leaves w) h)) = live h"
    by (rule rotation_script_live)
  then have lv: "live h' = live h" by (simp add: rs)
  from assms(6) have es: "es \<noteq> 0" by (simp add: rs)
  show ?thesis
    using assms(1-5) es lv
    by (simp add: process_host_def backup_stage_def make_remote_backup_def initial_result_def rs)
qed


theorem backup_failure_aborts_witness:
  "process_host demo_loads demo_dumps no_backup_dir_world demo_host ''10.0.0.1''
      (Some ''stratum+tcp://a:1'') None None True =
     \<lparr>result = \<lparr>ip = ''10.0.0.1'', success = False, updated = False, switched = False,
                msg = ''backup failed: mkdir: Permission denied''\<rparr>,
      remote = demo_host,
      trace = [Connect, ResolvePath, ResolvePath, Backup],
      ending = BackupFailed\<rparr>"
proof -
  have rs: "rotation_script (step_fails no_backup_dir_world) (cp_leaves no_backup_dir_world) demo_host = (1, demo_host)"
    by (simp add: rotation_script_def no_backup_dir_world_def)
  have st: "strip (backup_out no_backup_dir_world @ backup_err no_backup_dir_world) =
      ''mkdir: Permission denied''"
    by (simp add: no_backup_dir_world_def quiet_world_def strip_def is_space_def)
  have "process_host demo_loads demo_dumps no_backup_dir_world demo_host ''10.0.0.1''
      (Some ''stratum+tcp://a:1'') None None True =
           \<lparr>result = \<lparr>ip = ''10.0.0.1'', success = False, updated = False, switched = False,
                      msg = ''backup failed: '' @ strip (backup_out no_backup_dir_world @ backup_err no_backup_dir_world)\<rparr>,
            remote = snd (rotation_script (step_fails no_backup_dir_world) (cp_leaves no_backup_dir_world) demo_host),
            trace = [Connect, ResolvePath, ResolvePath, Backup],
            ending = BackupFailed\<rparr> \<and>
         live (snd (rotation_script (step_fails no_backup_dir_world) (cp_leaves no_backup_dir_world) demo_host)) = live demo_host"
    by (rule backup_failure_aborts)
       (simp_all add: mutation_requested_def no_backup_dir_world_def quiet_world_def rs [unfolded no_backup_dir_world_def quiet_world_def, simplified])
  then show ?thesis unfolding st rs by simp
qed

section \<open>The success flag\<close>

text \<open>
  C7, as stated, fails: when the config has been written and the connection is lost as the
  switch command is sent, \<^verbatim>\<open>run_ssh_command\<close> raises, the handler of line 238 skips
  line 236, and the result has \<open>updated\<close> true and \<open>success\<close> false.
\<close>

theorem success_flag_counterexample:
  "updated (result (process_host demo_loads demo_dumps lost_channel_world demo_host ''10.0.0.1''
      (Some ''stratum+tcp://a:1'') None None True)) \<and>
   \<not> success (result (process_host demo_loads demo_dumps lost_channel_world demo_host ''10.0.0.1''
      (Some ''stratum+tcp://a:1'') None None True))"
proof -
  obtain h' where rs: "rotation_script (\<lambda>s. False) (\<lambda>s. None) demo_host = (0, h')"
    and "live h' = live demo_host" by (rule quiet_rotation)
  then have lv: "live h' = Some ''cfg-v1''" by (simp add: demo_host_def)
  show ?thesis
    by (simp add: process_host_def backup_stage_def make_remote_backup_def read_stage_def
        mutate_stage_def write_stage_def switch_stage_def unhandled_def initial_result_def
        mutation_requested_def lost_channel_world_def quiet_world_def rs lv demo_loads_def
        demo_mutate_config)
qed

text \<open>
  C7, amended. The result has \<open>success = (updated \<or> switched)\<close> on every path that
  does not end in the handler for unexpected exceptions; on a path that does, success is
  false whatever the other flags are.
\<close>

theorem success_flag:
  "success (result (process_host loads dumps w h a disable_url enable_url new_pools sw)) =
     (ending (process_host loads dumps w h a disable_url enable_url new_pools sw) \<noteq> Unhandled \<and>
      (updated (result (process_host loads dumps w h a disable_url enable_url new_pools sw)) \<or>
       switched (result (process_host loads dumps w h a disable_url enable_url new_pools sw))))"
  using process_host_flags [of loads dumps w h a disable_url enable_url new_pools sw]
  by (simp only: flags_ok_def)

theorem success_flag_witness:
  "success (result (process_host demo_loads demo_dumps quiet_world demo_host ''10.0.0.1''
      (Some ''stratum+tcp://a:1'') None None True)) \<and>
   ending (process_host demo_loads demo_dumps quiet_world demo_host ''10.0.0.1''
      (Some ''stratum+tcp://a:1'') None None True) \<noteq> Unhandled"
  using success_flag [of demo_loads demo_dumps quiet_world demo_host "''10.0.0.1''"
      "Some ''stratum+tcp://a:1''" None None True]
  by (simp add: quiet_run)

section \<open>Result completeness\<close>





lemma future_result_raised: "\<not> success (future_result (Inl ex, a)) \<and> ip (future_result (Inl ex, a)) = a"
  by simp




end
